theory Spec2Isabelle
  imports Main
begin

section \<open>Data model (git/models/gitTypes.ts)\<close>

text \<open>
  The interfaces of \<^verbatim>\<open>gitTypes.ts\<close> as records. Several interfaces share field names
  (\<^verbatim>\<open>name\<close>, \<^verbatim>\<open>url\<close>, \<^verbatim>\<open>owner\<close>, ...), so every field carries a prefix naming its
  interface. A JavaScript \<^verbatim>\<open>Date\<close> is kept as the value it was built from: the host's
  timestamp text for a pull request, milliseconds for a commit.
\<close>

datatype HostType = github | gitlab | bitbucket | other

record PullRequest =
  pr_id :: int
  pr_title :: string
  pr_url :: string
  pr_branch :: string
  pr_author :: string
  pr_createdAt :: string
  pr_updatedAt :: string
  pr_isDraft :: bool
  pr_repository :: string

record GitRemote =
  remote_name :: string
  remote_url :: string
  remote_type :: HostType
  remote_owner :: "string option"
  remote_repository :: "string option"

record GitCommit =
  commit_hash :: string
  commit_message :: string
  commit_author :: string
  commit_date :: int

record GitStatus =
  isClean :: bool
  stagedFiles :: nat
  modifiedFiles :: nat
  untrackedFiles :: nat
  ahead :: nat
  behind :: nat

record GitRepositoryInfo =
  root :: string
  currentBranch :: string
  remotes :: "GitRemote list"
  lastCommit :: GitCommit
  status :: GitStatus
  isGitRepository :: bool

record RepositoryHostInfo =
  host_type :: HostType
  host_owner :: string
  host_repository :: string
  host_baseUrl :: string
  host_apiUrl :: string

record GitConfig =
  enabled :: bool
  branches :: "string list"
  pollingInterval :: int
  showNotifications :: bool
  includeDraftPRs :: bool

section \<open>RepositoryHostAPI (git/repositoryHostAPI.ts)\<close>

text \<open>
  The items of the three hosts' responses, with the fields the mappers read.
\<close>

record GitHubItem =
  gh_number :: int
  gh_title :: string
  gh_html_url :: string
  gh_base_ref :: string
  gh_user_login :: string
  gh_created_at :: string
  gh_updated_at :: string
  gh_draft :: bool

record GitLabItem =
  gl_iid :: int
  gl_title :: string
  gl_web_url :: string
  gl_target_branch :: string
  gl_author_username :: string
  gl_created_at :: string
  gl_updated_at :: string
  gl_work_in_progress :: bool

record BitbucketItem =
  bb_id :: int
  bb_title :: string
  bb_links_html_href :: string
  bb_destination_branch_name :: string
  bb_author_username :: string
  bb_created_on :: string
  bb_updated_on :: string

text \<open>
  What \<^verbatim>\<open>response.data\<close> of a completed \<^verbatim>\<open>axios.get\<close> holds: an array of GitHub items,
  an array of GitLab items, an object with a \<^verbatim>\<open>values\<close> array of Bitbucket items, or
  anything else. A request that fails (network error, non-2xx answer) is \<open>None\<close>.
  \<^verbatim>\<open>encodeURIComponent\<close> is the JavaScript built-in, taken as given.
\<close>

datatype ResponseData =
    GitHubData "GitHubItem list"
  | GitLabData "GitLabItem list"
  | BitbucketData "BitbucketItem list"
  | OtherData

record Http =
  axios_get :: "string \<Rightarrow> ResponseData option"
  encodeURIComponent :: "string \<Rightarrow> string"

definition array_includes :: "string list \<Rightarrow> string \<Rightarrow> bool" where
  "array_includes bs b = (b \<in> set bs)"

definition repoLabel :: "RepositoryHostInfo \<Rightarrow> string" where
  "repoLabel h = host_owner h @ ''/'' @ host_repository h"

definition fromGitHub :: "RepositoryHostInfo \<Rightarrow> GitHubItem \<Rightarrow> PullRequest" where
  "fromGitHub h pr =
     \<lparr> pr_id = gh_number pr, pr_title = gh_title pr, pr_url = gh_html_url pr,
       pr_branch = gh_base_ref pr, pr_author = gh_user_login pr,
       pr_createdAt = gh_created_at pr, pr_updatedAt = gh_updated_at pr,
       pr_isDraft = gh_draft pr, pr_repository = repoLabel h \<rparr>"

definition fromGitLab :: "RepositoryHostInfo \<Rightarrow> GitLabItem \<Rightarrow> PullRequest" where
  "fromGitLab h mr =
     \<lparr> pr_id = gl_iid mr, pr_title = gl_title mr, pr_url = gl_web_url mr,
       pr_branch = gl_target_branch mr, pr_author = gl_author_username mr,
       pr_createdAt = gl_created_at mr, pr_updatedAt = gl_updated_at mr,
       pr_isDraft = gl_work_in_progress mr, pr_repository = repoLabel h \<rparr>"

definition fromBitbucket :: "RepositoryHostInfo \<Rightarrow> BitbucketItem \<Rightarrow> PullRequest" where
  "fromBitbucket h pr =
     \<lparr> pr_id = bb_id pr, pr_title = bb_title pr, pr_url = bb_links_html_href pr,
       pr_branch = bb_destination_branch_name pr, pr_author = bb_author_username pr,
       pr_createdAt = bb_created_on pr, pr_updatedAt = bb_updated_on pr,
       pr_isDraft = False, pr_repository = repoLabel h \<rparr>"

text \<open>
  Each fetcher wraps the request, the filter and the map in one \<^verbatim>\<open>try\<close>: a failed
  request, or data of another shape (on which \<^verbatim>\<open>.filter\<close> throws), gives the empty list.
\<close>

definition getGitHubPullRequests ::
  "Http \<Rightarrow> RepositoryHostInfo \<Rightarrow> string list \<Rightarrow> PullRequest list" where
  "getGitHubPullRequests http h bs =
     (let url = host_apiUrl h @ ''/repos/'' @ host_owner h @ ''/'' @ host_repository h @ ''/pulls''
      in case axios_get http url of
           Some (GitHubData items) \<Rightarrow>
             map (fromGitHub h) (filter (\<lambda>pr. array_includes bs (gh_base_ref pr)) items)
         | _ \<Rightarrow> [])"

definition getGitLabPullRequests ::
  "Http \<Rightarrow> RepositoryHostInfo \<Rightarrow> string list \<Rightarrow> PullRequest list" where
  "getGitLabPullRequests http h bs =
     (let url = host_apiUrl h @ ''/projects/''
                  @ encodeURIComponent http (host_owner h @ ''/'' @ host_repository h)
                  @ ''/merge_requests''
      in case axios_get http url of
           Some (GitLabData items) \<Rightarrow>
             map (fromGitLab h) (filter (\<lambda>mr. array_includes bs (gl_target_branch mr)) items)
         | _ \<Rightarrow> [])"

definition getBitbucketPullRequests ::
  "Http \<Rightarrow> RepositoryHostInfo \<Rightarrow> string list \<Rightarrow> PullRequest list" where
  "getBitbucketPullRequests http h bs =
     (let url = host_apiUrl h @ ''/repositories/'' @ host_owner h @ ''/'' @ host_repository h
                  @ ''/pullrequests''
      in case axios_get http url of
           Some (BitbucketData items) \<Rightarrow>
             map (fromBitbucket h)
               (filter (\<lambda>pr. array_includes bs (bb_destination_branch_name pr)) items)
         | _ \<Rightarrow> [])"

definition getPullRequests ::
  "Http \<Rightarrow> RepositoryHostInfo \<Rightarrow> string list \<Rightarrow> PullRequest list" where
  "getPullRequests http h bs =
     (if host_type h = other then []
      else case host_type h of
             github \<Rightarrow> getGitHubPullRequests http h bs
           | gitlab \<Rightarrow> getGitLabPullRequests http h bs
           | bitbucket \<Rightarrow> getBitbucketPullRequests http h bs
           | other \<Rightarrow> [])"

section \<open>GitManager (git/gitManager.ts)\<close>

text \<open>
  The Git command-line wrapper is external. \<open>GitTool\<close> holds what its four queries
  answer in the present state of the working copy, \<open>None\<close> where the call throws:
  \<^verbatim>\<open>branch()\<close> (current branch and all branch names), \<^verbatim>\<open>getRemotes(true)\<close> (each
  remote as \<^verbatim>\<open>parseRemote\<close> returns it), \<^verbatim>\<open>log({maxCount: 1})\<close> (the latest commit, if
  there is one) and \<^verbatim>\<open>status()\<close>.
\<close>

record GitTool =
  tool_branch :: "(string \<times> string list) option"
  tool_getRemotes :: "GitRemote list option"
  tool_log :: "GitCommit option option"
  tool_status :: "GitStatus option"

text \<open>
  The fields of the class: \<open>git\<close> tells whether the \<^verbatim>\<open>SimpleGit\<close> handle is set
  (it is \<^verbatim>\<open>null\<close> outside a repository and after \<^verbatim>\<open>dispose\<close>), \<open>baseDir\<close> is
  \<^verbatim>\<open>gitOptions.baseDir\<close>, \<open>repositoryInfo\<close> the stored snapshot.
\<close>

record GitManager =
  git :: bool
  baseDir :: string
  repositoryInfo :: "GitRepositoryInfo option"

definition emptyCommit :: "int \<Rightarrow> GitCommit" where
  "emptyCommit now = \<lparr> commit_hash = '''', commit_message = '''', commit_author = '''',
                        commit_date = now \<rparr>"

definition cleanStatus :: GitStatus where
  "cleanStatus = \<lparr> isClean = True, stagedFiles = 0, modifiedFiles = 0, untrackedFiles = 0,
                    ahead = 0, behind = 0 \<rparr>"

definition getCurrentBranch :: "GitTool \<Rightarrow> GitManager \<Rightarrow> string" where
  "getCurrentBranch tool gm =
     (if \<not> git gm then ''''
      else case tool_branch tool of Some (current, all_names) \<Rightarrow> current | None \<Rightarrow> '''')"

definition getRemotes :: "GitTool \<Rightarrow> GitManager \<Rightarrow> GitRemote list" where
  "getRemotes tool gm =
     (if \<not> git gm then []
      else case tool_getRemotes tool of Some rs \<Rightarrow> rs | None \<Rightarrow> [])"

definition getLastCommit :: "GitTool \<Rightarrow> int \<Rightarrow> GitManager \<Rightarrow> GitCommit" where
  "getLastCommit tool now gm =
     (if \<not> git gm then emptyCommit now
      else case tool_log tool of Some (Some latest) \<Rightarrow> latest | _ \<Rightarrow> emptyCommit now)"

definition getStatus :: "GitTool \<Rightarrow> GitManager \<Rightarrow> GitStatus" where
  "getStatus tool gm =
     (if \<not> git gm then cleanStatus
      else case tool_status tool of Some st \<Rightarrow> st | None \<Rightarrow> cleanStatus)"

text \<open>
  None of the four queries lets an exception out, so the \<^verbatim>\<open>Promise.all\<close> of
  \<^verbatim>\<open>refreshRepositoryInfo\<close> always resolves and its \<^verbatim>\<open>catch\<close> is never entered.
\<close>

definition refreshRepositoryInfo ::
  "GitTool \<Rightarrow> int \<Rightarrow> GitManager \<Rightarrow> GitRepositoryInfo option \<times> GitManager" where
  "refreshRepositoryInfo tool now gm =
     (if \<not> git gm then (None, gm)
      else let info = \<lparr> root = baseDir gm,
                         currentBranch = getCurrentBranch tool gm,
                         remotes = getRemotes tool gm,
                         lastCommit = getLastCommit tool now gm,
                         status = getStatus tool gm,
                         isGitRepository = True \<rparr>
           in (Some info, gm\<lparr>repositoryInfo := Some info\<rparr>))"

definition getRepositoryInfo ::
  "GitTool \<Rightarrow> int \<Rightarrow> GitManager \<Rightarrow> GitRepositoryInfo option \<times> GitManager" where
  "getRepositoryInfo tool now gm =
     (case repositoryInfo gm of
        None \<Rightarrow> refreshRepositoryInfo tool now gm
      | Some info \<Rightarrow> (Some info, gm))"

definition getBranchList :: "GitTool \<Rightarrow> GitManager \<Rightarrow> string list" where
  "getBranchList tool gm =
     (if \<not> git gm then []
      else case tool_branch tool of Some (current, all_names) \<Rightarrow> all_names | None \<Rightarrow> [])"

text \<open>
  \<open>checkout b\<close> is the outcome of \<^verbatim>\<open>git.checkout(b)\<close>: \<open>None\<close> when it throws, otherwise
  the answers of the tool in the working copy after the checkout, against which the
  refresh that follows runs.
\<close>

definition switchBranch ::
  "(string \<Rightarrow> GitTool option) \<Rightarrow> int \<Rightarrow> GitManager \<Rightarrow> string \<Rightarrow> bool \<times> GitManager" where
  "switchBranch checkout now gm branchName =
     (if \<not> git gm then (False, gm)
      else case checkout branchName of
             None \<Rightarrow> (False, gm)
           | Some tool' \<Rightarrow> (True, snd (refreshRepositoryInfo tool' now gm)))"

definition dispose_git :: "GitManager \<Rightarrow> GitManager" where
  "dispose_git gm = gm\<lparr>git := False, repositoryInfo := None\<rparr>"

section \<open>PullRequestMonitor (git/pullRequestMonitor.ts)\<close>

text \<open>
  The editor's timer table: \<^verbatim>\<open>setInterval\<close> registers a recurring timer under a fresh
  handle, \<^verbatim>\<open>clearInterval\<close> removes the timer of a handle. \<open>active\<close> lists the timers
  that still fire, each with the interval it runs at. Node runs a timer at the delay it
  is handed when that lies between 1 and \<^verbatim>\<open>TIMEOUT_MAX\<close> (2147483647) ms, and at 1 ms
  otherwise (\<open>timerDelay\<close>).
\<close>

record Timers =
  nextHandle :: nat
  active :: "(nat \<times> int) list"

definition TIMEOUT_MAX :: int where
  "TIMEOUT_MAX = 2147483647"

definition timerDelay :: "int \<Rightarrow> int" where
  "timerDelay delay = (if delay \<ge> 1 \<and> delay \<le> TIMEOUT_MAX then delay else 1)"

definition setInterval :: "int \<Rightarrow> Timers \<Rightarrow> nat \<times> Timers" where
  "setInterval delay tm =
     (nextHandle tm,
      tm\<lparr>nextHandle := Suc (nextHandle tm),
         active := active tm @ [(nextHandle tm, timerDelay delay)]\<rparr>)"

definition clearInterval :: "nat \<Rightarrow> Timers \<Rightarrow> Timers" where
  "clearInterval h tm = tm\<lparr>active := filter (\<lambda>(h', d). h' \<noteq> h) (active tm)\<rparr>"

text \<open>
  An information message shown to the user: its text, its one action button, and the
  pull requests the action leads to.
\<close>

record Notification =
  note_message :: string
  note_action :: string
  note_items :: "PullRequest list"

record PullRequestMonitor =
  mon_pollingInterval :: "nat option"
  mon_lastKnownPRs :: "string \<rightharpoonup> PullRequest list"
  mon_config :: GitConfig

text \<open>
  The state the monitor's methods touch: the Git manager they query, the monitor's own
  fields, the timer table and the notifications shown so far.
\<close>

record Sys =
  gitManager :: GitManager
  monitor :: PullRequestMonitor
  timers :: Timers
  shown :: "Notification list"

text \<open>The decimal text of a count, as a template literal prints it.\<close>

function numberToString :: "nat \<Rightarrow> string" where
  "numberToString n =
     (if n < 10 then [char_of (48 + n)]
      else numberToString (n div 10) @ [char_of (48 + n mod 10)])"
  by pat_completeness auto
termination
  by (relation "measure id") auto

declare numberToString.simps [simp del]

definition findNewPullRequests :: "PullRequest list \<Rightarrow> PullRequest list \<Rightarrow> PullRequest list" where
  "findNewPullRequests lastKnown current =
     (if length lastKnown = 0 then current
      else let lastKnownIds = set (map pr_id lastKnown)
           in filter (\<lambda>pr. \<not> (pr_id pr \<in> lastKnownIds)) current)"

definition showNewPullRequestNotifications :: "PullRequest list \<Rightarrow> Notification" where
  "showNewPullRequestNotifications newPRs =
     (case newPRs of
        [pr] \<Rightarrow> \<lparr> note_message = ''New pull request: '' @ pr_title pr,
                  note_action = ''View PR'', note_items = [pr] \<rparr>
      | _ \<Rightarrow> \<lparr> note_message = numberToString (length newPRs) @ '' new pull requests found'',
                note_action = ''View All'', note_items = newPRs \<rparr>)"

definition getApiUrl :: "HostType \<Rightarrow> string" where
  "getApiUrl t =
     (case t of
        github \<Rightarrow> ''https://api.github.com''
      | gitlab \<Rightarrow> ''https://gitlab.com/api/v4''
      | bitbucket \<Rightarrow> ''https://api.bitbucket.org/2.0''
      | other \<Rightarrow> '''')"

text \<open>
  \<^verbatim>\<open>url.split('/').slice(0, -1).join('/')\<close>: the URL without its last segment.
\<close>

fun split_slash :: "string \<Rightarrow> string list" where
  "split_slash [] = [[]]"
| "split_slash (c # cs) =
     (if c = CHR ''/'' then [] # split_slash cs
      else case split_slash cs of
             w # ws \<Rightarrow> (c # w) # ws
           | [] \<Rightarrow> [[c]])"

fun join_slash :: "string list \<Rightarrow> string" where
  "join_slash [] = []"
| "join_slash [w] = w"
| "join_slash (w # ws) = w @ ''/'' @ join_slash ws"

definition falsy :: "string option \<Rightarrow> bool" where
  "falsy v = (case v of None \<Rightarrow> True | Some s \<Rightarrow> s = '''')"

definition skipped :: "GitRemote \<Rightarrow> bool" where
  "skipped remote =
     (remote_type remote = other \<or> falsy (remote_owner remote) \<or> falsy (remote_repository remote))"

definition hostInfoOf :: "GitRemote \<Rightarrow> RepositoryHostInfo" where
  "hostInfoOf remote =
     \<lparr> host_type = remote_type remote,
       host_owner = (case remote_owner remote of Some s \<Rightarrow> s | None \<Rightarrow> ''''),
       host_repository = (case remote_repository remote of Some s \<Rightarrow> s | None \<Rightarrow> ''''),
       host_baseUrl = join_slash (butlast (split_slash (remote_url remote))),
       host_apiUrl = getApiUrl (remote_type remote) \<rparr>"

text \<open>
  The body of the loop of \<^verbatim>\<open>checkForNewPullRequests\<close> for one remote, on the history map
  and the notifications shown so far; \<open>newFor\<close> is its \<^verbatim>\<open>newPRs\<close>, the items it takes
  for new.
\<close>

definition newFor ::
  "Http \<Rightarrow> GitConfig \<Rightarrow> (string \<rightharpoonup> PullRequest list) \<Rightarrow> GitRemote \<Rightarrow> PullRequest list" where
  "newFor http cfg hist remote =
     (let currentPRs = getPullRequests http (hostInfoOf remote) (branches cfg);
          lastKnownPRs = (case hist (remote_name remote) of Some l \<Rightarrow> l | None \<Rightarrow> [])
      in findNewPullRequests lastKnownPRs currentPRs)"

definition checkRemote ::
  "Http \<Rightarrow> GitConfig \<Rightarrow> (string \<rightharpoonup> PullRequest list) \<times> Notification list \<Rightarrow> GitRemote
     \<Rightarrow> (string \<rightharpoonup> PullRequest list) \<times> Notification list" where
  "checkRemote http cfg acc remote =
     (case acc of (hist, out) \<Rightarrow>
        if skipped remote then (hist, out)
        else let currentPRs = getPullRequests http (hostInfoOf remote) (branches cfg);
                 newPRs = newFor http cfg hist remote;
                 out' = (if length newPRs > 0 \<and> showNotifications cfg
                         then out @ [showNewPullRequestNotifications newPRs] else out)
             in (hist(remote_name remote \<mapsto> currentPRs), out'))"

text \<open>
  One poll tick. Nothing inside the \<^verbatim>\<open>try\<close> throws (the host client absorbs its own
  failures), so the \<^verbatim>\<open>catch\<close> is never entered.
\<close>

definition checkForNewPullRequests :: "Http \<Rightarrow> GitTool \<Rightarrow> int \<Rightarrow> Sys \<Rightarrow> Sys" where
  "checkForNewPullRequests http tool now s =
     (case getRepositoryInfo tool now (gitManager s) of (repoInfo, gm') \<Rightarrow>
        let s1 = s\<lparr>gitManager := gm'\<rparr> in
        (case repoInfo of
           None \<Rightarrow> s1
         | Some info \<Rightarrow>
             if length (remotes info) = 0 then s1
             else case foldl (checkRemote http (mon_config (monitor s1)))
                         (mon_lastKnownPRs (monitor s1), shown s1) (remotes info) of
                    (hist, out) \<Rightarrow>
                      s1\<lparr>monitor := (monitor s1)\<lparr>mon_lastKnownPRs := hist\<rparr>, shown := out\<rparr>))"

definition getCurrentPullRequests ::
  "Http \<Rightarrow> GitTool \<Rightarrow> int \<Rightarrow> Sys \<Rightarrow> PullRequest list \<times> Sys" where
  "getCurrentPullRequests http tool now s =
     (case getRepositoryInfo tool now (gitManager s) of (repoInfo, gm') \<Rightarrow>
        let s1 = s\<lparr>gitManager := gm'\<rparr> in
        (case repoInfo of
           None \<Rightarrow> ([], s1)
         | Some info \<Rightarrow>
             if length (remotes info) = 0 then ([], s1)
             else (foldl (\<lambda>allPRs remote.
                            if skipped remote then allPRs
                            else allPRs @ getPullRequests http (hostInfoOf remote)
                                            (branches (mon_config (monitor s1))))
                     [] (remotes info), s1)))"

text \<open>
  \<^verbatim>\<open>startMonitoring\<close> fires the first check without awaiting it and then registers the
  timer; the check and the registration touch different fields, so the check is run
  to its end first here.
\<close>

definition startMonitoring :: "Http \<Rightarrow> GitTool \<Rightarrow> int \<Rightarrow> Sys \<Rightarrow> Sys" where
  "startMonitoring http tool now s =
     (if \<not> enabled (mon_config (monitor s)) then s
      else let s1 = checkForNewPullRequests http tool now s
           in case setInterval (pollingInterval (mon_config (monitor s1))) (timers s1) of
                (h, tm) \<Rightarrow>
                  s1\<lparr>monitor := (monitor s1)\<lparr>mon_pollingInterval := Some h\<rparr>, timers := tm\<rparr>)"

definition stopMonitoring :: "Sys \<Rightarrow> Sys" where
  "stopMonitoring s =
     (case mon_pollingInterval (monitor s) of
        Some h \<Rightarrow> s\<lparr>timers := clearInterval h (timers s),
                    monitor := (monitor s)\<lparr>mon_pollingInterval := None\<rparr>\<rparr>
      | None \<Rightarrow> s)"

definition updateConfig :: "Http \<Rightarrow> GitTool \<Rightarrow> int \<Rightarrow> GitConfig \<Rightarrow> Sys \<Rightarrow> Sys" where
  "updateConfig http tool now newConfig s =
     (let s1 = s\<lparr>monitor := (monitor s)\<lparr>mon_config := newConfig\<rparr>\<rparr>
      in if enabled (mon_config (monitor s1)) then startMonitoring http tool now s1
         else stopMonitoring s1)"

definition dispose_monitor :: "Sys \<Rightarrow> Sys" where
  "dispose_monitor s =
     (let s1 = stopMonitoring s
      in s1\<lparr>monitor := (monitor s1)\<lparr>mon_lastKnownPRs := Map.empty\<rparr>\<rparr>)"

section \<open>Settings (extension.ts)\<close>

text \<open>
  The values of the \<^verbatim>\<open>den.git\<close> settings section as the editor hands them out:
  \<open>None\<close> where a key has no value, in which case \<^verbatim>\<open>config.get(key, default)\<close> answers
  the default.
\<close>

record GitSettings =
  set_enabled :: "bool option"
  set_branches :: "string list option"
  set_pollingInterval :: "int option"
  set_showNotifications :: "bool option"
  set_includeDraftPRs :: "bool option"

definition config_get :: "'a option \<Rightarrow> 'a \<Rightarrow> 'a" where
  "config_get v dflt = (case v of Some x \<Rightarrow> x | None \<Rightarrow> dflt)"

definition getGitConfig :: "GitSettings \<Rightarrow> GitConfig" where
  "getGitConfig st =
     \<lparr> enabled = config_get (set_enabled st) True,
       branches = config_get (set_branches st) [''develop'', ''test'', ''master'', ''main''],
       pollingInterval = config_get (set_pollingInterval st) 300000,
       showNotifications = config_get (set_showNotifications st) True,
       includeDraftPRs = config_get (set_includeDraftPRs st) False \<rparr>"

section \<open>ConfigManager (configManager.ts)\<close>

text \<open>
  A decoded configuration value: what \<^verbatim>\<open>JSON.parse\<close> can return, and \<^verbatim>\<open>undefined\<close>
  (\<^verbatim>\<open>yaml.load\<close> of an empty document, and the value of a property that is not there).
  An object lists its own properties, each key once. The payload of a number never
  decides anything below; it is kept as an integer.
\<close>

datatype JSValue =
    JUndefined
  | JNull
  | JBoolean bool
  | JNumber int
  | JString string
  | JArray "JSValue list"
  | JObject "(string \<times> JSValue) list"

fun typeof :: "JSValue \<Rightarrow> string" where
  "typeof JUndefined = ''undefined''"
| "typeof JNull = ''object''"
| "typeof (JBoolean b) = ''boolean''"
| "typeof (JNumber n) = ''number''"
| "typeof (JString s) = ''string''"
| "typeof (JArray xs) = ''object''"
| "typeof (JObject kvs) = ''object''"

fun truthy :: "JSValue \<Rightarrow> bool" where
  "truthy JUndefined = False"
| "truthy JNull = False"
| "truthy (JBoolean b) = b"
| "truthy (JNumber n) = (n \<noteq> 0)"
| "truthy (JString s) = (s \<noteq> '''')"
| "truthy (JArray xs) = True"
| "truthy (JObject kvs) = True"

fun isArray :: "JSValue \<Rightarrow> bool" where
  "isArray (JArray xs) = True"
| "isArray v = False"

text \<open>
  Reading the property \<open>k\<close> of an object or an array; an array has its indices and
  \<^verbatim>\<open>length\<close>, and any other name read from it is \<^verbatim>\<open>undefined\<close>.
\<close>

fun getProperty :: "JSValue \<Rightarrow> string \<Rightarrow> JSValue" where
  "getProperty (JObject kvs) k = (case map_of kvs k of Some v \<Rightarrow> v | None \<Rightarrow> JUndefined)"
| "getProperty (JArray xs) k =
     (if k = ''length'' then JNumber (int (length xs))
      else case filter (\<lambda>i. numberToString i = k) [0..<length xs] of
             i # rest \<Rightarrow> xs ! i
           | [] \<Rightarrow> JUndefined)"
| "getProperty v k = JUndefined"

text \<open>
  \<^verbatim>\<open>DENConfig\<close>. \<^verbatim>\<open>validateConfig\<close> stores the array under \<^verbatim>\<open>tools\<close> and the value under
  \<^verbatim>\<open>settings\<close> as they are, so the record holds their elements and the value itself.
\<close>

record DENConfig =
  den_name :: string
  den_version :: string
  den_environment :: string
  den_tools :: "JSValue list"
  den_settings :: JSValue

definition stringOr :: "JSValue \<Rightarrow> string \<Rightarrow> string" where
  "stringOr v dflt = (case v of JString s \<Rightarrow> s | _ \<Rightarrow> dflt)"

definition validateConfig :: "JSValue \<Rightarrow> DENConfig option" where
  "validateConfig config =
     (if \<not> truthy config \<or> typeof config \<noteq> ''object'' then None
      else Some
        \<lparr> den_name = stringOr (getProperty config ''name'') ''Default Environment'',
          den_version = stringOr (getProperty config ''version'') ''1.0.0'',
          den_environment = stringOr (getProperty config ''environment'') ''development'',
          den_tools = (case getProperty config ''tools'' of JArray xs \<Rightarrow> xs | _ \<Rightarrow> []),
          den_settings =
            (if truthy (getProperty config ''settings'')
                \<and> typeof (getProperty config ''settings'') = ''object''
             then getProperty config ''settings'' else JObject []) \<rparr>)"

text \<open>
  The file system and the library functions the loader calls, taken as given:
  \<open>readFileSync\<close> and the two parsers are \<open>None\<close> where they throw.
\<close>

record Node =
  existsSync :: "string \<Rightarrow> bool"
  readFileSync :: "string \<Rightarrow> string option"
  path_join :: "string \<Rightarrow> string \<Rightarrow> string"
  path_extname :: "string \<Rightarrow> string"
  toLowerCase :: "string \<Rightarrow> string"
  JSON_parse :: "string \<Rightarrow> JSValue option"
  yaml_load :: "string \<Rightarrow> JSValue option"

text \<open>Every call that touches the disk is recorded, in order.\<close>

datatype FsAccess = ExistsSync string | ReadFileSync string

definition loadConfigFromPath :: "Node \<Rightarrow> string \<Rightarrow> DENConfig option \<times> FsAccess list" where
  "loadConfigFromPath node filePath =
     (case readFileSync node filePath of
        None \<Rightarrow> None
      | Some content \<Rightarrow>
          let ext = toLowerCase node (path_extname node filePath)
          in if ext = ''.json''
             then (case JSON_parse node content of
                     None \<Rightarrow> None | Some config \<Rightarrow> validateConfig config)
             else if ext = ''.yml'' \<or> ext = ''.yaml''
             then (case yaml_load node content of
                     None \<Rightarrow> None | Some config \<Rightarrow> validateConfig config)
             else None,
      [ReadFileSync filePath])"

definition configFileNames :: "string list" where
  "configFileNames =
     [''den.yml'', ''den.yaml'', ''den.json'', ''.den.yml'', ''.den.yaml'', ''.den.json'']"

definition cacheTimeout :: int where
  "cacheTimeout = 30000"

type_synonym ConfigCache = "string \<rightharpoonup> DENConfig \<times> int"

definition clearCache :: "ConfigCache \<Rightarrow> ConfigCache" where
  "clearCache configCache = Map.empty"

text \<open>
  The loop of \<^verbatim>\<open>findConfigInWorkspace\<close> over the file names that are left; \<open>stamp\<close> is
  the clock reading stored with a new cache entry.
\<close>

fun searchFiles ::
  "Node \<Rightarrow> int \<Rightarrow> string \<Rightarrow> ConfigCache \<Rightarrow> string list
     \<Rightarrow> DENConfig option \<times> ConfigCache \<times> FsAccess list" where
  "searchFiles node stamp workspacePath configCache [] = (None, configCache, [])"
| "searchFiles node stamp workspacePath configCache (fileName # rest) =
     (let filePath = path_join node workspacePath fileName
      in if existsSync node filePath
         then (case loadConfigFromPath node filePath of
                 (Some config, tr) \<Rightarrow>
                   (Some config,
                    configCache(''workspace:'' @ workspacePath \<mapsto> (config, stamp)),
                    ExistsSync filePath # tr)
               | (None, tr) \<Rightarrow>
                   (case searchFiles node stamp workspacePath configCache rest of
                      (r, c, tr') \<Rightarrow> (r, c, ExistsSync filePath # tr @ tr')))
         else (case searchFiles node stamp workspacePath configCache rest of
                 (r, c, tr') \<Rightarrow> (r, c, ExistsSync filePath # tr')))"

definition findConfigInWorkspace ::
  "Node \<Rightarrow> int \<Rightarrow> int \<Rightarrow> ConfigCache \<Rightarrow> string
     \<Rightarrow> DENConfig option \<times> ConfigCache \<times> FsAccess list" where
  "findConfigInWorkspace node now stamp configCache workspacePath =
     (case configCache (''workspace:'' @ workspacePath) of
        Some (config, timestamp) \<Rightarrow>
          if now - timestamp < cacheTimeout then (Some config, configCache, [])
          else searchFiles node stamp workspacePath configCache configFileNames
      | None \<Rightarrow> searchFiles node stamp workspacePath configCache configFileNames)"

text \<open>
  The settings \<^verbatim>\<open>loadConfiguration\<close> reads: \<^verbatim>\<open>den.configPath\<close>, \<^verbatim>\<open>den.autoSearch\<close> and the
  workspace folders (\<open>None\<close> when no folder is open).
\<close>

record LoadSettings =
  configPath :: "string option"
  autoSearch :: "bool option"
  workspaceFolders :: "string list option"

fun searchFolders ::
  "Node \<Rightarrow> int \<Rightarrow> int \<Rightarrow> ConfigCache \<Rightarrow> string list
     \<Rightarrow> DENConfig option \<times> ConfigCache \<times> FsAccess list" where
  "searchFolders node now stamp configCache [] = (None, configCache, [])"
| "searchFolders node now stamp configCache (folder # rest) =
     (case findConfigInWorkspace node now stamp configCache folder of
        (Some config, c, tr) \<Rightarrow> (Some config, c, tr)
      | (None, c, tr) \<Rightarrow>
          (case searchFolders node now stamp c rest of
             (r, c', tr') \<Rightarrow> (r, c', tr @ tr')))"

definition loadConfiguration ::
  "Node \<Rightarrow> LoadSettings \<Rightarrow> int \<Rightarrow> int \<Rightarrow> ConfigCache
     \<Rightarrow> DENConfig option \<times> ConfigCache \<times> FsAccess list" where
  "loadConfiguration node st now stamp configCache =
     (case (case configPath st of
              None \<Rightarrow> (None, [])
            | Some customPath \<Rightarrow>
                if customPath = [] then (None, [])
                else loadConfigFromPath node customPath) of
        (Some customConfig, tr) \<Rightarrow> (Some customConfig, configCache, tr)
      | (None, tr) \<Rightarrow>
          (case workspaceFolders st of
             Some folders \<Rightarrow>
               if autoSearch st = Some True
               then (case searchFolders node now stamp configCache folders of
                       (r, c, tr') \<Rightarrow> (r, c, tr @ tr'))
               else (None, configCache, tr)
           | None \<Rightarrow> (None, configCache, tr)))"

section \<open>The interval as the specification words it\<close>

text \<open>
  The specification speaks of a polling interval clamped to 1 to 30 minutes. This is
  that clamp, written from the specification's words, to compare the code against.
\<close>

definition spec_clampedInterval :: "int \<Rightarrow> int" where
  "spec_clampedInterval v = max 60000 (min 1800000 v)"

section \<open>An object as the specification words it\<close>


section \<open>Example inputs\<close>

text \<open>
  A working copy with a GitHub remote \<^verbatim>\<open>origin\<close> and a Bitbucket remote \<^verbatim>\<open>mirror\<close>,
  each host answering one open pull request that targets \<^verbatim>\<open>main\<close>.
\<close>

definition ex_pr :: "int \<Rightarrow> string \<Rightarrow> PullRequest" where
  "ex_pr n t = \<lparr> pr_id = n, pr_title = t, pr_url = ''https://example.org/pr'',
                  pr_branch = ''main'', pr_author = ''dev'', pr_createdAt = ''2024-01-01'',
                  pr_updatedAt = ''2024-01-02'', pr_isDraft = False,
                  pr_repository = ''acme/widgets'' \<rparr>"

definition ex_github_item :: GitHubItem where
  "ex_github_item = \<lparr> gh_number = 7, gh_title = ''Add feature'',
       gh_html_url = ''https://github.com/acme/widgets/pull/7'', gh_base_ref = ''main'',
       gh_user_login = ''dev'', gh_created_at = ''2024-01-01'', gh_updated_at = ''2024-01-02'',
       gh_draft = True \<rparr>"

definition ex_bitbucket_item :: BitbucketItem where
  "ex_bitbucket_item = \<lparr> bb_id = 4, bb_title = ''Fix typo'',
       bb_links_html_href = ''https://bitbucket.org/acme/gadgets/pull-requests/4'',
       bb_destination_branch_name = ''main'', bb_author_username = ''dev'',
       bb_created_on = ''2024-02-01'', bb_updated_on = ''2024-02-02'' \<rparr>"

definition ex_http :: Http where
  "ex_http = \<lparr> axios_get = (\<lambda>url.
        if url = ''https://api.github.com/repos/acme/widgets/pulls''
        then Some (GitHubData [ex_github_item])
        else if url = ''https://api.bitbucket.org/2.0/repositories/acme/gadgets/pullrequests''
        then Some (BitbucketData [ex_bitbucket_item])
        else None),
      encodeURIComponent = (\<lambda>s. s) \<rparr>"

definition ex_origin :: GitRemote where
  "ex_origin = \<lparr> remote_name = ''origin'', remote_url = ''git@github.com:acme/widgets.git'',
       remote_type = github, remote_owner = Some ''acme'', remote_repository = Some ''widgets'' \<rparr>"

definition ex_mirror :: GitRemote where
  "ex_mirror = \<lparr> remote_name = ''mirror'', remote_url = ''https://bitbucket.org/acme/gadgets.git'',
       remote_type = bitbucket, remote_owner = Some ''acme'', remote_repository = Some ''gadgets'' \<rparr>"

definition ex_config :: GitConfig where
  "ex_config = \<lparr> enabled = True, branches = [''main''], pollingInterval = 300000,
       showNotifications = True, includeDraftPRs = False \<rparr>"

definition ex_tool :: GitTool where
  "ex_tool = \<lparr> tool_branch = Some (''main'', [''main'', ''develop'']),
       tool_getRemotes = Some [ex_origin, ex_mirror],
       tool_log = Some None, tool_status = None \<rparr>"

definition ex_gm :: GitManager where
  "ex_gm = \<lparr> git = True, baseDir = ''/work'', repositoryInfo = None \<rparr>"

definition ex_sys :: "(string \<rightharpoonup> PullRequest list) \<Rightarrow> Sys" where
  "ex_sys hist = \<lparr> gitManager = ex_gm,
       monitor = \<lparr> mon_pollingInterval = None, mon_lastKnownPRs = hist, mon_config = ex_config \<rparr>,
       timers = \<lparr> nextHandle = 0, active = [] \<rparr>,
       shown = [] \<rparr>"

text \<open>A checkout that succeeds for \<^verbatim>\<open>develop\<close> only, and the working copy after it.\<close>

definition ex_develop :: GitTool where
  "ex_develop = ex_tool\<lparr>tool_branch := Some (''develop'', [''main'', ''develop''])\<rparr>"

definition ex_checkout :: "string \<Rightarrow> GitTool option" where
  "ex_checkout b = (if b = ''develop'' then Some ex_develop else None)"

text \<open>Settings that ask for a poll every second.\<close>

definition ex_settings :: GitSettings where
  "ex_settings = \<lparr> set_enabled = Some True, set_branches = None,
       set_pollingInterval = Some 1000, set_showNotifications = None,
       set_includeDraftPRs = None \<rparr>"

definition ex_configured :: Sys where
  "ex_configured = (ex_sys Map.empty)\<lparr>monitor :=
      \<lparr> mon_pollingInterval = None, mon_lastKnownPRs = Map.empty,
        mon_config = getGitConfig ex_settings \<rparr>\<rparr>"

text \<open>Settings that ask for an interval of 0 ms, and settings that name no interval.\<close>

definition ex_configured_zero :: Sys where
  "ex_configured_zero = (ex_sys Map.empty)\<lparr>monitor :=
      \<lparr> mon_pollingInterval = None, mon_lastKnownPRs = Map.empty,
        mon_config = getGitConfig (ex_settings\<lparr>set_pollingInterval := Some 0\<rparr>) \<rparr>\<rparr>"

definition ex_configured_default :: Sys where
  "ex_configured_default = (ex_sys Map.empty)\<lparr>monitor :=
      \<lparr> mon_pollingInterval = None, mon_lastKnownPRs = Map.empty,
        mon_config = getGitConfig (ex_settings\<lparr>set_pollingInterval := None\<rparr>) \<rparr>\<rparr>"


text \<open>Histories in which both remotes have been seen before, with other items.\<close>

definition ex_seen :: "string \<rightharpoonup> PullRequest list" where
  "ex_seen = [''origin'' \<mapsto> [ex_pr 1 ''one''], ''mirror'' \<mapsto> [ex_pr 2 ''two'']]"

text \<open>
  A workspace \<^verbatim>\<open>/work\<close> whose \<^verbatim>\<open>den.yml\<close> names the environment \<^verbatim>\<open>Fresh\<close>, and a cache that
  still holds a record named \<^verbatim>\<open>Stale\<close> for it, stored at time 1000.
\<close>

definition ex_record :: "string \<Rightarrow> DENConfig" where
  "ex_record n = \<lparr> den_name = n, den_version = ''1.0.0'', den_environment = ''development'',
                   den_tools = [], den_settings = JObject [] \<rparr>"

definition ex_node :: Node where
  "ex_node = \<lparr> existsSync = (\<lambda>p. p = ''/work/den.yml''),
       readFileSync = (\<lambda>p. if p = ''/work/den.yml'' then Some ''name: Fresh'' else None),
       path_join = (\<lambda>a b. a @ ''/'' @ b),
       path_extname = (\<lambda>p. CHR ''.'' # rev (takeWhile (\<lambda>c. c \<noteq> CHR ''.'') (rev p))),
       toLowerCase = (\<lambda>s. s),
       JSON_parse = (\<lambda>s. None),
       yaml_load = (\<lambda>s. if s = ''name: Fresh'' then Some (JObject [(''name'', JString ''Fresh'')])
                         else None) \<rparr>"

definition ex_cache :: ConfigCache where
  "ex_cache = [''workspace:/work'' \<mapsto> (ex_record ''Stale'', 1000)]"

section \<open>Unfolding and frame lemmas\<close>

lemmas ex_defs = ex_pr_def ex_github_item_def ex_bitbucket_item_def ex_http_def ex_origin_def
  ex_mirror_def ex_config_def ex_tool_def ex_gm_def ex_sys_def

lemmas tick_defs = checkForNewPullRequests_def getRepositoryInfo_def refreshRepositoryInfo_def
  getRemotes_def getCurrentBranch_def getLastCommit_def getStatus_def checkRemote_def newFor_def
  skipped_def falsy_def hostInfoOf_def getApiUrl_def getPullRequests_def
  getGitHubPullRequests_def getBitbucketPullRequests_def getGitLabPullRequests_def
  fromGitHub_def fromBitbucket_def fromGitLab_def repoLabel_def array_includes_def
  findNewPullRequests_def showNewPullRequestNotifications_def

text \<open>A poll tick leaves the timer table, the configuration and the timer handle alone.\<close>

lemma tick_timers [simp]: "timers (checkForNewPullRequests http tool now s) = timers s"
  by (simp add: checkForNewPullRequests_def Let_def split: prod.splits option.splits)

lemma tick_config [simp]:
  "mon_config (monitor (checkForNewPullRequests http tool now s)) = mon_config (monitor s)"
  by (simp add: checkForNewPullRequests_def Let_def split: prod.splits option.splits)

lemma tick_handle [simp]:
  "mon_pollingInterval (monitor (checkForNewPullRequests http tool now s))
     = mon_pollingInterval (monitor s)"
  by (simp add: checkForNewPullRequests_def Let_def split: prod.splits option.splits)

text \<open>
  The notifications of a run of the loop over remotes with distinct names: one for each
  remote that is not skipped and has new items against the history the run started with.
\<close>

lemma newFor_other:
  "remote_name r \<noteq> n \<Longrightarrow> newFor http cfg (hist(n \<mapsto> c)) r = newFor http cfg hist r"
  by (simp add: newFor_def)

lemma checkRemote_notes:
  assumes "showNotifications cfg"
  shows "snd (checkRemote http cfg (hist, out) r)
           = out @ map (\<lambda>r. showNewPullRequestNotifications (newFor http cfg hist r))
                     (filter (\<lambda>r. \<not> skipped r \<and> newFor http cfg hist r \<noteq> []) [r])"
  using assms by (simp add: checkRemote_def Let_def)

lemma checkRemote_hist:
  "fst (checkRemote http cfg (hist, out) r) = hist
   \<or> (\<exists>c. fst (checkRemote http cfg (hist, out) r) = hist(remote_name r \<mapsto> c))"
  by (auto simp: checkRemote_def Let_def)

lemma fold_notifications:
  assumes "showNotifications cfg"
  shows "distinct (map remote_name rs) \<Longrightarrow>
         snd (foldl (checkRemote http cfg) (hist, out) rs)
           = out @ map (\<lambda>r. showNewPullRequestNotifications (newFor http cfg hist r))
                     (filter (\<lambda>r. \<not> skipped r \<and> newFor http cfg hist r \<noteq> []) rs)"
proof (induction rs arbitrary: hist out)
  case Nil
  then show ?case by simp
next
  case (Cons r rs)
  obtain hist' out' where step: "checkRemote http cfg (hist, out) r = (hist', out')"
    by (cases "checkRemote http cfg (hist, out) r") auto
  have out': "out' = out @ map (\<lambda>r. showNewPullRequestNotifications (newFor http cfg hist r))
                     (filter (\<lambda>r. \<not> skipped r \<and> newFor http cfg hist r \<noteq> []) [r])"
    using checkRemote_notes [OF assms, of http hist out r] step by simp
  have same: "newFor http cfg hist' q = newFor http cfg hist q" if "q \<in> set rs" for q
  proof -
    from that have "remote_name q \<in> remote_name ` set rs" by simp
    with Cons.prems have "remote_name q \<noteq> remote_name r" by auto
    then show ?thesis
      using checkRemote_hist [of http cfg hist out r] step by (auto simp: newFor_other)
  qed
  have rest: "map (\<lambda>r. showNewPullRequestNotifications (newFor http cfg hist' r))
                (filter (\<lambda>r. \<not> skipped r \<and> newFor http cfg hist' r \<noteq> []) rs)
            = map (\<lambda>r. showNewPullRequestNotifications (newFor http cfg hist r))
                (filter (\<lambda>r. \<not> skipped r \<and> newFor http cfg hist r \<noteq> []) rs)"
    using same by (induction rs) auto
  from Cons.prems have d: "distinct (map remote_name rs)" by simp
  have "snd (foldl (checkRemote http cfg) (hist, out) (r # rs))
          = snd (foldl (checkRemote http cfg) (hist', out') rs)"
    by (simp add: step)
  also have "\<dots> = out' @ map (\<lambda>r. showNewPullRequestNotifications (newFor http cfg hist' r))
                (filter (\<lambda>r. \<not> skipped r \<and> newFor http cfg hist' r \<noteq> []) rs)"
    by (rule Cons.IH [OF d])
  finally show ?case
    by (simp add: out' rest)
qed

text \<open>
  The file search: a search that finds nothing leaves the cache as it was, and a record
  that a search returns was read from a file during that search.
\<close>

lemma loadConfigFromPath_trace [simp]:
  "snd (loadConfigFromPath node p) = [ReadFileSync p]"
  by (simp add: loadConfigFromPath_def)

lemma searchFiles_None_cache:
  "searchFiles node stamp ws c fs = (None, c', tr) \<Longrightarrow> c' = c"
  by (induction fs arbitrary: tr) (auto simp: Let_def split: if_splits prod.splits option.splits)

lemma searchFiles_Some_read:
  "searchFiles node stamp ws c fs = (Some cfg, c', tr) \<Longrightarrow>
     \<exists>p. ReadFileSync p \<in> set tr \<and> fst (loadConfigFromPath node p) = Some cfg"
proof (induction fs arbitrary: tr)
  case Nil
  then show ?case by simp
next
  case (Cons f fs)
  let ?p = "path_join node ws f"
  show ?case
  proof (cases "existsSync node ?p")
    case False
    with Cons.prems obtain tr' where "searchFiles node stamp ws c fs = (Some cfg, c', tr')"
      and "tr = ExistsSync ?p # tr'"
      by (auto simp: Let_def split: prod.splits)
    with Cons.IH show ?thesis by fastforce
  next
    case True
    obtain r t where l: "loadConfigFromPath node ?p = (r, t)"
      by (cases "loadConfigFromPath node ?p") auto
    then have t: "t = [ReadFileSync ?p]"
      using loadConfigFromPath_trace [of node ?p] by simp
    show ?thesis
    proof (cases r)
      case (Some found)
      with Cons.prems True l t have "found = cfg" "ReadFileSync ?p \<in> set tr"
        by (auto simp: Let_def)
      with l Some show ?thesis by force
    next
      case None
      with Cons.prems True l obtain tr' where
        "searchFiles node stamp ws c fs = (Some cfg, c', tr')" and "tr = ExistsSync ?p # t @ tr'"
        by (auto simp: Let_def split: prod.splits)
      with Cons.IH show ?thesis by fastforce
    qed
  qed
qed

lemma find_empty:
  "findConfigInWorkspace node now stamp Map.empty ws
     = searchFiles node stamp ws Map.empty configFileNames"
  by (simp add: findConfigInWorkspace_def)

lemma searchFolders_empty_read:
  "searchFolders node now stamp Map.empty folders = (Some cfg, c', tr) \<Longrightarrow>
     \<exists>p. ReadFileSync p \<in> set tr \<and> fst (loadConfigFromPath node p) = Some cfg"
proof (induction folders arbitrary: tr)
  case Nil
  then show ?case by simp
next
  case (Cons d ds)
  obtain r c t where f: "searchFiles node stamp d Map.empty configFileNames = (r, c, t)"
    by (cases "searchFiles node stamp d Map.empty configFileNames") auto
  show ?case
  proof (cases r)
    case (Some found)
    with Cons.prems f have "found = cfg" "t = tr"
      by (auto simp: find_empty)
    with f Some searchFiles_Some_read show ?thesis by metis
  next
    case None
    with f have "c = Map.empty" using searchFiles_None_cache by metis
    with Cons.prems f None obtain tr' where
      "searchFolders node now stamp Map.empty ds = (Some cfg, c', tr')" and "tr = t @ tr'"
      by (auto simp: find_empty split: prod.splits)
    with Cons.IH show ?thesis by fastforce
  qed
qed

lemma first_probe:
  "\<exists>tr'. snd (snd (searchFiles node stamp ws c (f # fs))) = ExistsSync (path_join node ws f) # tr'"
  by (auto simp: Let_def split: prod.splits option.splits)

section \<open>The poll tick: what counts as new\<close>

text \<open>
  C1, as the code has it. For a remote name with no entry in the history map, a tick
  that fetches a non-empty current list takes every fetched item for new: with
  notifications enabled one notification is shown for that remote, and the full current
  list is stored as that remote's history.
\<close>

theorem first_poll_reports_all:
  assumes "hist (remote_name remote) = None"
    and "\<not> skipped remote"
    and "getPullRequests http (hostInfoOf remote) (branches cfg) = current"
    and "current \<noteq> []"
  shows "newFor http cfg hist remote = current
       \<and> fst (checkRemote http cfg (hist, out) remote) = hist(remote_name remote \<mapsto> current)
       \<and> snd (checkRemote http cfg (hist, out) remote)
           = (if showNotifications cfg then out @ [showNewPullRequestNotifications current]
              else out)"
  using assms by (simp add: checkRemote_def newFor_def findNewPullRequests_def Let_def)

theorem first_poll_reports_all_witness:
  "newFor ex_http ex_config Map.empty ex_origin
     = getPullRequests ex_http (hostInfoOf ex_origin) (branches ex_config)
   \<and> fst (checkRemote ex_http ex_config (Map.empty, []) ex_origin) ''origin''
       = Some (getPullRequests ex_http (hostInfoOf ex_origin) (branches ex_config))
   \<and> length (snd (checkRemote ex_http ex_config (Map.empty, []) ex_origin)) = 1"
proof -
  have h1: "Map.empty (remote_name ex_origin) = (None :: PullRequest list option)" by simp
  have h2: "\<not> skipped ex_origin" by (simp add: skipped_def falsy_def ex_origin_def)
  have h4: "getPullRequests ex_http (hostInfoOf ex_origin) (branches ex_config) \<noteq> []"
    by (simp add: ex_defs tick_defs Let_def)
  have n: "remote_name ex_origin = ''origin''" "showNotifications ex_config"
    by (simp_all add: ex_origin_def ex_config_def)
  show ?thesis
    using first_poll_reports_all [OF h1 h2 refl h4, of "[]"] n by simp
qed

text \<open>
  The claim as the specification words it (zero new items, no notification on a first
  poll) fails: with an empty history map and one open pull request on \<^verbatim>\<open>origin\<close>, the
  item is taken for new and a notification is shown.
\<close>

theorem first_poll_counterexample:
  "Map.empty (remote_name ex_origin) = (None :: PullRequest list option)
   \<and> getPullRequests ex_http (hostInfoOf ex_origin) (branches ex_config) \<noteq> []
   \<and> newFor ex_http ex_config Map.empty ex_origin \<noteq> []
   \<and> snd (checkRemote ex_http ex_config (Map.empty, []) ex_origin)
       = [\<lparr> note_message = ''New pull request: Add feature'', note_action = ''View PR'',
            note_items = getPullRequests ex_http (hostInfoOf ex_origin) (branches ex_config) \<rparr>]"
  by (simp add: ex_defs tick_defs Let_def)

text \<open>
  C2. With a non-empty prior list, the items reported new are exactly the current items
  whose id does not occur among the ids of the prior list, in the order of the current
  list.
\<close>

theorem diff_reports_unseen_ids:
  assumes "lastKnown \<noteq> []"
  shows "findNewPullRequests lastKnown current
           = filter (\<lambda>pr. pr_id pr \<notin> pr_id ` set lastKnown) current
       \<and> set (findNewPullRequests lastKnown current)
           = {pr \<in> set current. pr_id pr \<notin> pr_id ` set lastKnown}
       \<and> (hist (remote_name remote) = Some lastKnown \<longrightarrow>
            set (newFor http cfg hist remote)
              = {pr \<in> set (getPullRequests http (hostInfoOf remote) (branches cfg)).
                   pr_id pr \<notin> pr_id ` set lastKnown})"
  using assms by (auto simp: findNewPullRequests_def newFor_def)

theorem diff_reports_unseen_ids_witness:
  "[ex_pr 1 ''one'', ex_pr 2 ''two''] \<noteq> []
   \<and> findNewPullRequests [ex_pr 1 ''one'', ex_pr 2 ''two''] [ex_pr 2 ''two'', ex_pr 3 ''three'']
       = [ex_pr 3 ''three'']"
  using diff_reports_unseen_ids [of "[ex_pr 1 ''one'', ex_pr 2 ''two'']"
                                    "[ex_pr 2 ''two'', ex_pr 3 ''three'']"]
  by (simp add: ex_pr_def)

section \<open>Notifications of a tick\<close>

text \<open>
  C4, as the code has it. With notifications enabled, a tick notifies per remote and does
  not aggregate across remotes: for remotes with distinct names, each remote for which
  new items were found gets exactly one notification, in the order of the remotes. That
  notification is the single-item one with the action \<^verbatim>\<open>View PR\<close> when exactly one item
  is new for that remote, and the count summary with the action \<^verbatim>\<open>View All\<close> when more
  than one is.
\<close>

theorem notifications_are_per_remote:
  assumes "getRepositoryInfo tool now (gitManager s) = (Some info, gm')"
    and "distinct (map remote_name (remotes info))"
    and "showNotifications (mon_config (monitor s))"
  shows "shown (checkForNewPullRequests http tool now s)
           = shown s @
             map (\<lambda>r. showNewPullRequestNotifications
                        (newFor http (mon_config (monitor s)) (mon_lastKnownPRs (monitor s)) r))
               (filter (\<lambda>r. \<not> skipped r
                            \<and> newFor http (mon_config (monitor s)) (mon_lastKnownPRs (monitor s)) r \<noteq> [])
                  (remotes info))
       \<and> showNewPullRequestNotifications [pr]
           = \<lparr> note_message = ''New pull request: '' @ pr_title pr, note_action = ''View PR'',
               note_items = [pr] \<rparr>
       \<and> showNewPullRequestNotifications (pr # pr' # prs)
           = \<lparr> note_message = numberToString (length (pr # pr' # prs))
                                 @ '' new pull requests found'',
               note_action = ''View All'', note_items = pr # pr' # prs \<rparr>"
proof -
  have "shown (checkForNewPullRequests http tool now s)
          = snd (foldl (checkRemote http (mon_config (monitor s)))
                   (mon_lastKnownPRs (monitor s), shown s) (remotes info))"
    using assms(1) by (simp add: checkForNewPullRequests_def Let_def split: prod.splits)
  then show ?thesis
    using fold_notifications [OF assms(3) assms(2)]
    by (simp add: showNewPullRequestNotifications_def)
qed

theorem notifications_are_per_remote_witness:
  "map note_action (shown (checkForNewPullRequests ex_http ex_tool 0 (ex_sys ex_seen)))
     = [''View PR'', ''View PR'']
   \<and> showNewPullRequestNotifications [ex_pr 1 ''one'', ex_pr 2 ''two'']
       = \<lparr> note_message = ''2 new pull requests found'', note_action = ''View All'',
           note_items = [ex_pr 1 ''one'', ex_pr 2 ''two''] \<rparr>"
proof -
  have two: "numberToString (Suc (Suc 0)) = ''2''"
    by code_simp
  have h1: "getRepositoryInfo ex_tool 0 (gitManager (ex_sys ex_seen))
              = (Some \<lparr> root = ''/work'', currentBranch = ''main'',
                        remotes = [ex_origin, ex_mirror], lastCommit = emptyCommit 0,
                        status = cleanStatus, isGitRepository = True \<rparr>,
                 ex_gm\<lparr>repositoryInfo := Some \<lparr> root = ''/work'', currentBranch = ''main'',
                        remotes = [ex_origin, ex_mirror], lastCommit = emptyCommit 0,
                        status = cleanStatus, isGitRepository = True \<rparr>\<rparr>)"
    by (simp add: getRepositoryInfo_def refreshRepositoryInfo_def getRemotes_def
          getCurrentBranch_def getLastCommit_def getStatus_def ex_sys_def ex_gm_def ex_tool_def
          Let_def)
  have h2: "distinct (map remote_name [ex_origin, ex_mirror])"
    by (simp add: ex_origin_def ex_mirror_def)
  have h3: "showNotifications (mon_config (monitor (ex_sys ex_seen)))"
    by (simp add: ex_sys_def ex_config_def)
  have n1: "newFor ex_http ex_config ex_seen ex_origin = [fromGitHub (hostInfoOf ex_origin) ex_github_item]"
    by (simp add: ex_defs tick_defs ex_seen_def Let_def)
  have n2: "newFor ex_http ex_config ex_seen ex_mirror = [fromBitbucket (hostInfoOf ex_mirror) ex_bitbucket_item]"
    by (simp add: ex_defs tick_defs ex_seen_def Let_def)
  have s: "\<not> skipped ex_origin" "\<not> skipped ex_mirror"
    by (simp_all add: skipped_def falsy_def ex_origin_def ex_mirror_def)
  have m: "mon_config (monitor (ex_sys ex_seen)) = ex_config"
     "mon_lastKnownPRs (monitor (ex_sys ex_seen)) = ex_seen" "shown (ex_sys ex_seen) = []"
    by (simp_all add: ex_sys_def)
  show ?thesis
    using notifications_are_per_remote [of ex_tool 0 "ex_sys ex_seen" _ _ ex_http
            "ex_pr 1 ''one''" "ex_pr 2 ''two''" "[]", OF h1 _ h3] h2
    by (simp add: m n1 n2 s two showNewPullRequestNotifications_def)
qed

text \<open>
  The claim as the specification words it fails: with one new item on each of two
  remotes, two new items were found in the tick, and the tick shows two single-item
  notifications, not one count summary.
\<close>

theorem notifications_not_aggregated_counterexample:
  "map note_message (shown (checkForNewPullRequests ex_http ex_tool 0 (ex_sys ex_seen)))
     = [''New pull request: Add feature'', ''New pull request: Fix typo'']
   \<and> map note_action (shown (checkForNewPullRequests ex_http ex_tool 0 (ex_sys ex_seen)))
     = [''View PR'', ''View PR'']"
  by (simp add: ex_defs tick_defs ex_seen_def Let_def)

section \<open>On-demand listing\<close>

text \<open>
  C5. \<^verbatim>\<open>getCurrentPullRequests\<close> leaves the monitor (its history map included), the
  notifications and the timers as they were, and a tick that follows it changes the
  monitor and shows notifications exactly as the same tick without the call would.
\<close>

theorem getCurrentPullRequests_frame:
  "monitor (snd (getCurrentPullRequests http tool now s)) = monitor s
   \<and> shown (snd (getCurrentPullRequests http tool now s)) = shown s
   \<and> timers (snd (getCurrentPullRequests http tool now s)) = timers s
   \<and> monitor (checkForNewPullRequests http tool now' (snd (getCurrentPullRequests http tool now s)))
       = monitor (checkForNewPullRequests http tool now' s)
   \<and> shown (checkForNewPullRequests http tool now' (snd (getCurrentPullRequests http tool now s)))
       = shown (checkForNewPullRequests http tool now' s)"
  by (auto simp: getCurrentPullRequests_def checkForNewPullRequests_def getRepositoryInfo_def
        refreshRepositoryInfo_def Let_def split: prod.splits option.splits if_splits)

theorem getCurrentPullRequests_frame_witness:
  "length (fst (getCurrentPullRequests ex_http ex_tool 0 (ex_sys Map.empty))) = 2
   \<and> shown (checkForNewPullRequests ex_http ex_tool 1
              (snd (getCurrentPullRequests ex_http ex_tool 0 (ex_sys Map.empty))))
       = shown (checkForNewPullRequests ex_http ex_tool 1 (ex_sys Map.empty))"
proof -
  have "length (fst (getCurrentPullRequests ex_http ex_tool 0 (ex_sys Map.empty))) = 2"
    by (simp add: getCurrentPullRequests_def ex_defs tick_defs Let_def)
  then show ?thesis
    using getCurrentPullRequests_frame [of ex_http ex_tool 0 "ex_sys Map.empty" 1] by simp
qed

section \<open>Reconfiguration and the timer\<close>

text \<open>
  C6. \<^verbatim>\<open>updateConfig\<close> with an enabled configuration on a monitor that is already polling
  registers a second timer and forgets the handle of the first: two timers fire
  afterwards, and \<^verbatim>\<open>dispose\<close> stops only the second.
\<close>

theorem updateConfig_leaks_timer:
  "active (timers (startMonitoring ex_http ex_tool 0 (ex_sys Map.empty))) = [(0, 300000)]
   \<and> active (timers (updateConfig ex_http ex_tool 0 (ex_config\<lparr>pollingInterval := 600000\<rparr>)
                       (startMonitoring ex_http ex_tool 0 (ex_sys Map.empty))))
       = [(0, 300000), (1, 600000)]
   \<and> active (timers (dispose_monitor
                       (updateConfig ex_http ex_tool 0 (ex_config\<lparr>pollingInterval := 600000\<rparr>)
                          (startMonitoring ex_http ex_tool 0 (ex_sys Map.empty)))))
       = [(0, 300000)]"
  by (simp add: updateConfig_def startMonitoring_def setInterval_def timerDelay_def
        TIMEOUT_MAX_def Let_def dispose_monitor_def stopMonitoring_def clearInterval_def
        ex_sys_def ex_config_def)

text \<open>
  C8, as the code has it. \<^verbatim>\<open>getGitConfig\<close> takes the value of \<^verbatim>\<open>den.git.pollingInterval\<close>
  as it is (300000 ms when the setting has no value) and \<^verbatim>\<open>startMonitoring\<close> hands that
  value to \<^verbatim>\<open>setInterval\<close>: nothing clamps it to 1 to 30 minutes. The timer then runs at
  that value when it lies between 1 and 2147483647 ms, and at 1 ms otherwise.
\<close>

theorem interval_is_configured_value:
  assumes "mon_config (monitor s) = getGitConfig st"
    and "set_enabled st \<noteq> Some False"
    and "v = (case set_pollingInterval st of Some configured \<Rightarrow> configured | None \<Rightarrow> 300000)"
  shows "pollingInterval (mon_config (monitor (startMonitoring http tool now s))) = v
       \<and> active (timers (startMonitoring http tool now s))
           = active (timers s) @
             [(nextHandle (timers s), if 1 \<le> v \<and> v \<le> 2147483647 then v else 1)]"
  using assms
  by (auto simp: startMonitoring_def setInterval_def timerDelay_def TIMEOUT_MAX_def Let_def
        getGitConfig_def config_get_def split: option.splits)

theorem interval_is_configured_value_witness:
  "active (timers (startMonitoring ex_http ex_tool 0 ex_configured)) = [(0, 1000)]
   \<and> active (timers (startMonitoring ex_http ex_tool 0 ex_configured_zero)) = [(0, 1)]
   \<and> active (timers (startMonitoring ex_http ex_tool 0 ex_configured_default)) = [(0, 300000)]"
proof -
  have t: "timers ex_configured = \<lparr> nextHandle = 0, active = [] \<rparr>"
    "timers ex_configured_zero = \<lparr> nextHandle = 0, active = [] \<rparr>"
    "timers ex_configured_default = \<lparr> nextHandle = 0, active = [] \<rparr>"
    by (simp_all add: ex_configured_def ex_configured_zero_def ex_configured_default_def
          ex_sys_def)
  have a: "active (timers (startMonitoring ex_http ex_tool 0 ex_configured)) = [(0, 1000)]"
  proof -
    have h1: "mon_config (monitor ex_configured) = getGitConfig ex_settings"
      by (simp add: ex_configured_def)
    have h2: "set_enabled ex_settings \<noteq> Some False"
      by (simp add: ex_settings_def)
    have h3: "(1000::int) = (case set_pollingInterval ex_settings of
                               Some configured \<Rightarrow> configured | None \<Rightarrow> 300000)"
      by (simp add: ex_settings_def)
    show ?thesis
      using interval_is_configured_value [OF h1 h2 h3, of ex_http ex_tool 0] t by simp
  qed
  have b: "active (timers (startMonitoring ex_http ex_tool 0 ex_configured_zero)) = [(0, 1)]"
  proof -
    have h1: "mon_config (monitor ex_configured_zero)
                = getGitConfig (ex_settings\<lparr>set_pollingInterval := Some 0\<rparr>)"
      by (simp add: ex_configured_zero_def)
    have h2: "set_enabled (ex_settings\<lparr>set_pollingInterval := Some 0\<rparr>) \<noteq> Some False"
      by (simp add: ex_settings_def)
    have h3: "(0::int) = (case set_pollingInterval (ex_settings\<lparr>set_pollingInterval := Some 0\<rparr>) of
                            Some configured \<Rightarrow> configured | None \<Rightarrow> 300000)"
      by simp
    show ?thesis
      using interval_is_configured_value [OF h1 h2 h3, of ex_http ex_tool 0] t by simp
  qed
  have c: "active (timers (startMonitoring ex_http ex_tool 0 ex_configured_default))
             = [(0, 300000)]"
  proof -
    have h1: "mon_config (monitor ex_configured_default)
                = getGitConfig (ex_settings\<lparr>set_pollingInterval := None\<rparr>)"
      by (simp add: ex_configured_default_def)
    have h2: "set_enabled (ex_settings\<lparr>set_pollingInterval := None\<rparr>) \<noteq> Some False"
      by (simp add: ex_settings_def)
    have h3: "(300000::int) = (case set_pollingInterval (ex_settings\<lparr>set_pollingInterval := None\<rparr>) of
                                 Some configured \<Rightarrow> configured | None \<Rightarrow> 300000)"
      by simp
    show ?thesis
      using interval_is_configured_value [OF h1 h2 h3, of ex_http ex_tool 0] t by simp
  qed
  show ?thesis
    using a b c by simp
qed

text \<open>
  The claim as the specification words it fails: a configured interval of 1000 ms gives
  a timer of 1000 ms, where the clamp would give 60000 ms.
\<close>

theorem interval_not_clamped_counterexample:
  "map snd (active (timers (startMonitoring ex_http ex_tool 0 ex_configured))) = [1000]
   \<and> spec_clampedInterval 1000 = 60000"
  by (simp add: startMonitoring_def setInterval_def timerDelay_def TIMEOUT_MAX_def Let_def
        ex_configured_def ex_sys_def getGitConfig_def config_get_def ex_settings_def
        spec_clampedInterval_def)

section \<open>Switching branches\<close>

text \<open>
  C9. When the checkout fails, \<^verbatim>\<open>switchBranch\<close> answers false and the manager, its stored
  snapshot included, is as before. When it succeeds, \<^verbatim>\<open>switchBranch\<close> answers true and
  the stored snapshot is a full refresh against the working copy after the checkout.
\<close>

theorem switchBranch_outcomes:
  "(checkout b = None \<longrightarrow> switchBranch checkout now gm b = (False, gm))
   \<and> (\<not> git gm \<longrightarrow> switchBranch checkout now gm b = (False, gm))
   \<and> (\<forall>tool'. git gm \<and> checkout b = Some tool' \<longrightarrow>
          fst (switchBranch checkout now gm b) = True
        \<and> snd (switchBranch checkout now gm b) = snd (refreshRepositoryInfo tool' now gm)
        \<and> repositoryInfo (snd (switchBranch checkout now gm b))
            = Some \<lparr> root = baseDir gm,
                     currentBranch = getCurrentBranch tool' gm,
                     remotes = getRemotes tool' gm,
                     lastCommit = getLastCommit tool' now gm,
                     status = getStatus tool' gm,
                     isGitRepository = True \<rparr>)"
  by (simp add: switchBranch_def refreshRepositoryInfo_def Let_def)

theorem switchBranch_outcomes_witness:
  "switchBranch ex_checkout 0 ex_gm ''release'' = (False, ex_gm)
   \<and> fst (switchBranch ex_checkout 0 ex_gm ''develop'') = True
   \<and> map_option currentBranch (repositoryInfo (snd (switchBranch ex_checkout 0 ex_gm ''develop'')))
       = Some ''develop''"
proof -
  have fails: "ex_checkout ''release'' = None"
    by (simp add: ex_checkout_def)
  have works: "git ex_gm \<and> ex_checkout ''develop'' = Some ex_develop"
    by (simp add: ex_checkout_def ex_gm_def)
  have a: "switchBranch ex_checkout 0 ex_gm ''release'' = (False, ex_gm)"
    using switchBranch_outcomes [of ex_checkout "''release''" 0 ex_gm] fails by blast
  have b: "fst (switchBranch ex_checkout 0 ex_gm ''develop'') = True
         \<and> repositoryInfo (snd (switchBranch ex_checkout 0 ex_gm ''develop''))
             = Some \<lparr> root = baseDir ex_gm,
                      currentBranch = getCurrentBranch ex_develop ex_gm,
                      remotes = getRemotes ex_develop ex_gm,
                      lastCommit = getLastCommit ex_develop 0 ex_gm,
                      status = getStatus ex_develop ex_gm,
                      isGitRepository = True \<rparr>"
    using switchBranch_outcomes [of ex_checkout "''develop''" 0 ex_gm] works by blast
  have c: "getCurrentBranch ex_develop ex_gm = ''develop''"
    by (simp add: getCurrentBranch_def ex_develop_def ex_gm_def)
  show ?thesis
    using a b c by simp
qed

section \<open>The configuration cache\<close>

text \<open>
  C7. \<^verbatim>\<open>clearCache\<close> leaves no entry under any key. A lookup for a workspace after it,
  at any time, is the search of the files on disk, which starts by probing \<^verbatim>\<open>den.yml\<close>,
  and every record that \<^verbatim>\<open>loadConfiguration\<close> returns after it was read from a file
  during that load.
\<close>

theorem clearCache_forces_disk_read:
  "clearCache configCache key = None
   \<and> findConfigInWorkspace node now stamp (clearCache configCache) ws
       = searchFiles node stamp ws Map.empty configFileNames
   \<and> (\<exists>tr'. snd (snd (findConfigInWorkspace node now stamp (clearCache configCache) ws))
              = ExistsSync (path_join node ws ''den.yml'') # tr')
   \<and> (\<forall>cfg c' tr. loadConfiguration node st now stamp (clearCache configCache) = (Some cfg, c', tr)
         \<longrightarrow> (\<exists>p. ReadFileSync p \<in> set tr \<and> fst (loadConfigFromPath node p) = Some cfg))"
proof -
  have probe: "\<exists>tr'. snd (snd (searchFiles node stamp ws Map.empty configFileNames))
                 = ExistsSync (path_join node ws ''den.yml'') # tr'"
    unfolding configFileNames_def by (rule first_probe)
  have load: "\<exists>p. ReadFileSync p \<in> set tr \<and> fst (loadConfigFromPath node p) = Some cfg"
    if l: "loadConfiguration node st now stamp Map.empty = (Some cfg, c', tr)" for cfg c' tr
  proof -
    obtain r t where custom:
      "(case configPath st of None \<Rightarrow> (None, [])
        | Some customPath \<Rightarrow> if customPath = [] then (None, [])
                             else loadConfigFromPath node customPath) = (r, t)"
      by (cases "case configPath st of None \<Rightarrow> (None, [])
        | Some customPath \<Rightarrow> if customPath = [] then (None, [])
                             else loadConfigFromPath node customPath") auto
    show ?thesis
    proof (cases r)
      case (Some found)
      with custom obtain p where "configPath st = Some p" "loadConfigFromPath node p = (Some found, t)"
        by (auto split: option.splits if_splits)
      moreover from l custom Some have "found = cfg" "t = tr"
        by (auto simp: loadConfiguration_def)
      moreover have "t = [ReadFileSync p]"
        using calculation(2) loadConfigFromPath_trace [of node p] by simp
      ultimately show ?thesis by force
    next
      case None
      with l custom obtain folders tr' where
        "searchFolders node now stamp Map.empty folders = (Some cfg, c', tr')" and "tr = t @ tr'"
        by (auto simp: loadConfiguration_def split: option.splits if_splits prod.splits)
      with searchFolders_empty_read show ?thesis by fastforce
    qed
  qed
  show ?thesis
    using probe load by (simp add: clearCache_def find_empty)
qed

theorem clearCache_forces_disk_read_witness:
  "findConfigInWorkspace ex_node 2000 2000 ex_cache ''/work''
     = (Some (ex_record ''Stale''), ex_cache, [])
   \<and> fst (findConfigInWorkspace ex_node 2000 2000 (clearCache ex_cache) ''/work'')
       = Some (ex_record ''Fresh'')
   \<and> snd (snd (findConfigInWorkspace ex_node 2000 2000 (clearCache ex_cache) ''/work''))
       = [ExistsSync ''/work/den.yml'', ReadFileSync ''/work/den.yml'']"
proof -
  have hit: "findConfigInWorkspace ex_node 2000 2000 ex_cache ''/work''
               = (Some (ex_record ''Stale''), ex_cache, [])"
    by (simp add: findConfigInWorkspace_def ex_cache_def cacheTimeout_def)
  have disk: "searchFiles ex_node 2000 ''/work'' Map.empty configFileNames
                = (Some (ex_record ''Fresh''),
                   [''workspace:/work'' \<mapsto> (ex_record ''Fresh'', 2000)],
                   [ExistsSync ''/work/den.yml'', ReadFileSync ''/work/den.yml''])"
    by (simp add: configFileNames_def ex_node_def loadConfigFromPath_def validateConfig_def
          stringOr_def ex_record_def Let_def)
  show ?thesis
    using clearCache_forces_disk_read [of ex_cache "''workspace:/work''" ex_node 2000 2000 "''/work''"]
      hit disk
    by simp
qed

section \<open>Validation with defaults\<close>




section \<open>The Bitbucket mapper\<close>

text \<open>
  C10. Every record the Bitbucket path produces has its draft flag false, whatever the
  host answered: through the Bitbucket fetcher itself, and through the public
  \<^verbatim>\<open>getPullRequests\<close> for a host of type bitbucket.
\<close>

theorem bitbucket_never_draft:
  "(\<forall>pr \<in> set (getBitbucketPullRequests http h bs). pr_isDraft pr = False) \<and>
   (host_type h = bitbucket \<longrightarrow>
      (\<forall>pr \<in> set (getPullRequests http h bs). pr_isDraft pr = False))"
proof -
  have fetcher: "\<forall>pr \<in> set (getBitbucketPullRequests http h bs). pr_isDraft pr = False"
    by (auto simp: getBitbucketPullRequests_def fromBitbucket_def Let_def
             split: option.splits ResponseData.splits)
  moreover have "host_type h = bitbucket \<Longrightarrow>
      getPullRequests http h bs = getBitbucketPullRequests http h bs"
    by (simp add: getPullRequests_def)
  ultimately show ?thesis by simp
qed

theorem bitbucket_never_draft_witness:
  "host_type (hostInfoOf ex_mirror) = bitbucket
   \<and> length (getPullRequests ex_http (hostInfoOf ex_mirror) [''main'']) = 1
   \<and> map pr_isDraft (getPullRequests ex_http (hostInfoOf ex_mirror) [''main'']) = [False]"
proof -
  have t: "host_type (hostInfoOf ex_mirror) = bitbucket"
    by (simp add: hostInfoOf_def ex_mirror_def)
  have n: "length (getPullRequests ex_http (hostInfoOf ex_mirror) [''main'']) = 1"
    by (simp add: ex_defs tick_defs Let_def)
  then obtain pr where one: "getPullRequests ex_http (hostInfoOf ex_mirror) [''main''] = [pr]"
    by (cases "getPullRequests ex_http (hostInfoOf ex_mirror) [''main'']") auto
  show ?thesis
    using bitbucket_never_draft [of ex_http "hostInfoOf ex_mirror" "[''main'']"] t n one
    by simp
qed

end
